theory Spec2Isabelle
  imports Main "HOL-Library.Multiset"
begin

section \<open>JavaScript values and string primitives\<close>

text \<open>
  The parser is TypeScript over an untyped (\<open>any\<close>) document. A property that may be
  missing is an \<open>option\<close> (\<open>None\<close> is \<open>undefined\<close>); a \<open>throw\<close> or a dereference of
  \<open>undefined\<close> is an error value. Strings are lists of characters; the string methods
  below follow ECMAScript: \<open>substring\<close> clamps its indices to the string and swaps
  them when the first is larger, \<open>indexOf\<close> returns \<open>-1\<close> for a miss, \<open>split\<close> never
  returns an empty array, and \<open>xs[i]\<close> is \<open>undefined\<close> outside the array.
\<close>

datatype js_error = TypeError | Error string

definition truthy :: "string option \<Rightarrow> bool" where
  "truthy v = (case v of None \<Rightarrow> False | Some s \<Rightarrow> s \<noteq> [])"

definition js_or :: "string option \<Rightarrow> string option \<Rightarrow> string option" where
  "js_or a b = (if truthy a then a else b)"

definition js_nth :: "'a list \<Rightarrow> int \<Rightarrow> 'a option" where
  "js_nth xs i = (if 0 \<le> i \<and> i < int (length xs) then Some (xs ! nat i) else None)"

definition substring :: "string \<Rightarrow> int \<Rightarrow> int \<Rightarrow> string" where
  "substring s a b =
     (let n = int (length s);
          a' = max 0 (min a n);
          b' = max 0 (min b n);
          lo = min a' b';
          hi = max a' b'
      in take (nat (hi - lo)) (drop (nat lo) s))"

definition substring_from :: "string \<Rightarrow> int \<Rightarrow> string" where
  "substring_from s a = substring s a (int (length s))"

definition startsWith :: "string \<Rightarrow> string \<Rightarrow> bool" where
  "startsWith s p = (take (length p) s = p)"

fun indexOf_at :: "string \<Rightarrow> string \<Rightarrow> int \<Rightarrow> int" where
  "indexOf_at [] p i = (if p = [] then i else -1)"
| "indexOf_at (c # cs) p i =
     (if startsWith (c # cs) p then i else indexOf_at cs p (i + 1))"

definition indexOf :: "string \<Rightarrow> string \<Rightarrow> int" where
  "indexOf s p = indexOf_at s p 0"

fun js_split :: "char \<Rightarrow> string \<Rightarrow> string list" where
  "js_split sep [] = [[]]"
| "js_split sep (c # cs) =
     (if c = sep then [] # js_split sep cs
      else (case js_split sep cs of
              [] \<Rightarrow> [[c]]
            | w # ws \<Rightarrow> (c # w) # ws))"

fun js_join :: "string \<Rightarrow> string list \<Rightarrow> string" where
  "js_join sep [] = []"
| "js_join sep [x] = x"
| "js_join sep (x # y # ys) = x @ sep @ js_join sep (y # ys)"

section \<open>decodeParam\<close>

text \<open>
  The decoded reference. The first branch of \<open>decodeParam\<close> returns
  \<open>{ task: '', param: paramName }\<close>: the task is the empty string, which every caller
  tests for truthiness (\<open>param && param.task\<close>, \<open>!splitParam.task\<close>). The last branch
  returns \<open>{}\<close>: both fields are absent.
\<close>

record param_ref =
  task :: "string option"
  param :: "string option"

definition decodeParam :: "string \<Rightarrow> js_error + param_ref" where
  "decodeParam paramString =
     (if substring paramString 0 9 = ''$(params.'' \<and>
         substring_from paramString (int (length paramString) - 1) = '')''
      then Inr \<lparr>task = Some [],
                param = Some (substring paramString 9 (int (length paramString) - 1))\<rparr>
      else if indexOf paramString ''$('' \<noteq> -1 \<and> indexOf paramString '')'' \<noteq> -1
      then (let paramSplit = js_split CHR ''.'' paramString
            in case js_nth paramSplit (int (length paramSplit) - 1) of
                 None \<Rightarrow> Inl TypeError
               | Some l \<Rightarrow>
                   Inr \<lparr>task = js_nth paramSplit 1,
                        param = Some (substring l 0 (int (length l) - 1))\<rparr>)
      else Inr \<lparr>task = None, param = None\<rparr>)"

text \<open>The two shapes the branches of \<open>decodeParam\<close> test for.\<close>

definition pipelineParamShape :: "string \<Rightarrow> bool" where
  "pipelineParamShape s =
     (substring s 0 9 = ''$(params.'' \<and> substring_from s (int (length s) - 1) = '')'')"

definition taskResultShape :: "string \<Rightarrow> bool" where
  "taskResultShape s =
     (\<not> pipelineParamShape s \<and> indexOf s ''$('' \<noteq> -1 \<and> indexOf s '')'' \<noteq> -1)"

text \<open>
  The reading of "the last segment with the delimiter characters stripped" that the
  specification's words give: the characters of \<open>$(\<close> and \<open>)\<close> removed from the segment.
\<close>

definition spec_strip_delimiters :: "string \<Rightarrow> string" where
  "spec_strip_delimiters seg = filter (\<lambda>c. c \<notin> set ''$()'') seg"

section \<open>parseStoragePath\<close>

datatype StorageService = GCS | HTTP | HTTPS | MINIO | S3 | VOLUME

record StoragePath =
  source :: StorageService
  bucket :: string
  key :: string

text \<open>
  \<open>strPath.substr(n)\<close> is \<open>drop n\<close>; \<open>pathParts[0]\<close> is the head of the split, which is
  never empty (lemma \<open>js_split_not_Nil\<close>), and \<open>pathParts.slice(1)\<close> is its tail.
\<close>

definition storagePathOf :: "StorageService \<Rightarrow> string \<Rightarrow> string \<Rightarrow> StoragePath" where
  "storagePathOf svc prefix strPath =
     (let pathParts = js_split CHR ''/'' (drop (length prefix) strPath)
      in \<lparr>source = svc, bucket = hd pathParts, key = js_join ''/'' (tl pathParts)\<rparr>)"

definition parseStoragePath :: "string \<Rightarrow> js_error + StoragePath" where
  "parseStoragePath strPath =
     (if startsWith strPath ''gs://'' then Inr (storagePathOf GCS ''gs://'' strPath)
      else if startsWith strPath ''minio://'' then Inr (storagePathOf MINIO ''minio://'' strPath)
      else if startsWith strPath ''s3://'' then Inr (storagePathOf S3 ''s3://'' strPath)
      else if startsWith strPath ''http://'' then Inr (storagePathOf HTTP ''http://'' strPath)
      else if startsWith strPath ''https://'' then Inr (storagePathOf HTTPS ''https://'' strPath)
      else if startsWith strPath ''volume://'' then Inr (storagePathOf VOLUME ''volume://'' strPath)
      else Inl (Error (''Unsupported storage path: '' @ strPath)))"

section \<open>The status document\<close>

text \<open>
  The document is untyped JSON. Every property that the code defaults (\<open>|| []\<close>,
  \<open>|| {}\<close>) or tests for truthiness before use is optional here; names and values of
  parameter bindings, results and when-expressions are strings. An object with string
  keys (\<open>status.taskRuns\<close>, \<open>status.runs\<close>) is the list of its entries in the order
  of \<open>Object.getOwnPropertyNames\<close>; property names of an object are distinct.
\<close>

record named_value =
  nv_name :: string
  nv_value :: string

record status_param =
  sp_name :: string
  sp_value :: "string option"

record condition_status =
  cond_type :: string
  cond_reason :: string

record status_taskSpec =
  ts_params :: "status_param list option"

record run_status =
  podName :: "string option"
  conditions :: "condition_status list option"
  taskResults :: "named_value list option"
  taskSpec :: "status_taskSpec option"

record run_record =
  taskRunId :: "string option"
  pipelineTaskName :: string
  rr_status :: "run_status option"

record when_expression =
  input :: string

record task_condition =
  conditionRef :: "string option"
  cond_name :: "string option"
  cond_params :: "named_value list option"

record step =
  command :: "string list option"
  args :: "string list option"

record task_metadata =
  labels :: "(string \<times> string) list option"

record task_spec =
  ts_metadata :: "task_metadata option"
  steps :: "step list option"

record pipeline_task =
  task_name :: string
  task_params :: "named_value list option"
  task_when :: "when_expression list option"
  task_conditions :: "task_condition list option"
  task_taskSpec :: "task_spec option"
  task_runAfter :: "string list option"

record pipeline_spec =
  tasks :: "pipeline_task list option"
  finally_tasks :: "pipeline_task list option"

record workflow_spec =
  wf_params :: "named_value list option"
  pipelineSpec :: pipeline_spec

record workflow_status =
  taskRuns :: "(string \<times> run_record) list option"
  runs :: "(string \<times> run_record) list option"
  skippedTasks :: "string list option"

text \<open>
  The annotations of the run, with the two JSON-encoded maps already parsed
  (\<open>JSON.parse\<close> of a present annotation; \<open>None\<close> when the annotation is missing or
  empty).
\<close>

record input_artifact =
  ia_name :: string
  parent_task :: string

record output_artifact =
  oa_name :: string
  oa_key :: "string option"

record wf_annotations =
  input_artifacts :: "(string \<times> input_artifact list) list option"
  output_artifacts :: "(string \<times> output_artifact list) list option"
  artifact_endpoint :: "string option"
  artifact_bucket :: "string option"
  artifact_endpoint_scheme :: "string option"

record workflow_metadata =
  md_name :: "string option"
  annotations :: "wf_annotations option"

record workflow =
  wf_metadata :: "workflow_metadata option"
  wf_spec :: workflow_spec
  wf_status :: "workflow_status option"

definition orEmpty :: "'a list option \<Rightarrow> 'a list" where
  "orEmpty xs = (case xs of None \<Rightarrow> [] | Some ys \<Rightarrow> ys)"

text \<open>Sequencing of computations that may throw: the first exception ends the run.\<close>

definition andThen :: "'e + 'a \<Rightarrow> ('a \<Rightarrow> 'e + 'b) \<Rightarrow> 'e + 'b" where
  "andThen m f = (case m of Inl e \<Rightarrow> Inl e | Inr x \<Rightarrow> f x)"

fun foldE :: "('a \<Rightarrow> 's \<Rightarrow> 'e + 's) \<Rightarrow> 'a list \<Rightarrow> 's \<Rightarrow> 'e + 's" where
  "foldE f [] s = Inr s"
| "foldE f (x # xs) s = andThen (f x s) (foldE f xs)"

section \<open>The graph\<close>

text \<open>
  \<open>dagre.graphlib.Graph\<close> is a library outside the repository. Its documented behaviour
  is modelled: nodes are keyed by the string form of their identifier
  (\<open>'' + v\<close>, so \<open>undefined\<close> is the key \<open>undefined\<close>), \<open>setEdge\<close> leaves the graph
  unchanged when the edge is already there and otherwise first creates the endpoints
  that are missing, \<open>setNode\<close> with a value replaces the value of a node that exists. A
  node carries the status the display functions are applied to and whether the
  task is an exit handler; the display functions themselves (\<open>statusToIcon\<close>,
  \<open>statusToBgColor\<close>, \<open>parseTaskDisplayName\<close>) are outside the repository's sources.
\<close>

record node_info =
  ni_status :: string
  ni_exitHandler :: bool

record graph =
  g_nodes :: "(string \<times> node_info option) list"
  g_edges :: "(string \<times> string) list"

type_synonym edge = "string option \<times> string option"

definition emptyGraph :: graph where
  "emptyGraph = \<lparr>g_nodes = [], g_edges = []\<rparr>"

definition js_string :: "string option \<Rightarrow> string" where
  "js_string v = (case v of None \<Rightarrow> ''undefined'' | Some s \<Rightarrow> s)"

definition hasNode :: "graph \<Rightarrow> string \<Rightarrow> bool" where
  "hasNode g v = (v \<in> set (map fst (g_nodes g)))"

definition ensureNode :: "string \<Rightarrow> graph \<Rightarrow> graph" where
  "ensureNode v g = (if hasNode g v then g else g\<lparr>g_nodes := g_nodes g @ [(v, None)]\<rparr>)"

definition setNode :: "string \<Rightarrow> node_info \<Rightarrow> graph \<Rightarrow> graph" where
  "setNode v info g =
     (if hasNode g v
      then g\<lparr>g_nodes := map (\<lambda>(k, x). if k = v then (k, Some info) else (k, x)) (g_nodes g)\<rparr>
      else g\<lparr>g_nodes := g_nodes g @ [(v, Some info)]\<rparr>)"

definition setEdge :: "string option \<Rightarrow> string option \<Rightarrow> graph \<Rightarrow> graph" where
  "setEdge parent child g =
     (let v = js_string parent; w = js_string child
      in if (v, w) \<in> set (g_edges g) then g
         else (ensureNode w (ensureNode v g))\<lparr>g_edges := g_edges g @ [(v, w)]\<rparr>)"

definition setEdges :: "edge list \<Rightarrow> graph \<Rightarrow> graph" where
  "setEdges edges g = fold (\<lambda>(parent, child). setEdge parent child) edges g"

section \<open>The status map\<close>

text \<open>
  \<open>statusMap\<close> maps a task name to the run record of that task. The records are the
  objects of the document itself, which \<open>checkParams\<close> mutates; so the map holds
  references (the collection and the key of the record) and the records live in the
  status object, which is threaded through the run as the store.
\<close>

datatype run_ref = TaskRunRef string | RunRef string

type_synonym status_map = "string \<Rightarrow> run_ref option"

definition deref :: "workflow_status \<Rightarrow> run_ref \<Rightarrow> run_record option" where
  "deref st ref =
     (case ref of
        TaskRunRef k \<Rightarrow> map_of (orEmpty (taskRuns st)) k
      | RunRef k \<Rightarrow> map_of (orEmpty (runs st)) k)"

definition modifyEntries ::
  "string \<Rightarrow> (run_record \<Rightarrow> run_record) \<Rightarrow> (string \<times> run_record) list
     \<Rightarrow> (string \<times> run_record) list" where
  "modifyEntries k f xs = map (\<lambda>(k', r). if k' = k then (k', f r) else (k', r)) xs"

definition modify ::
  "run_ref \<Rightarrow> (run_record \<Rightarrow> run_record) \<Rightarrow> workflow_status \<Rightarrow> workflow_status" where
  "modify ref f st =
     (case ref of
        TaskRunRef k \<Rightarrow> st\<lparr>taskRuns := map_option (modifyEntries k f) (taskRuns st)\<rparr>
      | RunRef k \<Rightarrow> st\<lparr>runs := map_option (modifyEntries k f) (runs st)\<rparr>)"

text \<open>\<open>statusMap.get(name)\<close>; a name that is \<open>undefined\<close> is no key of the map.\<close>

definition statusMap_get ::
  "workflow_status \<Rightarrow> status_map \<Rightarrow> string option \<Rightarrow> (run_ref \<times> run_record) option" where
  "statusMap_get st sm n =
     (case n of
        None \<Rightarrow> None
      | Some k \<Rightarrow>
          (case sm k of
             None \<Rightarrow> None
           | Some ref \<Rightarrow> (case deref st ref of None \<Rightarrow> None | Some r \<Rightarrow> Some (ref, r))))"

text \<open>
  \<open>statusMap.get(name) && statusMap.get(name)['status'][...]\<close>: nothing when the name
  is not in the map, a TypeError when the record has no \<open>status\<close> to read from.
\<close>

definition lookupStatus ::
  "workflow_status \<Rightarrow> status_map \<Rightarrow> string option
     \<Rightarrow> js_error + (run_ref \<times> run_record \<times> run_status) option" where
  "lookupStatus st sm n =
     (case statusMap_get st sm n of
        None \<Rightarrow> Inr None
      | Some (ref, r) \<Rightarrow>
          (case rr_status r of None \<Rightarrow> Inl TypeError | Some s \<Rightarrow> Inr (Some (ref, r, s))))"

text \<open>
  Lines 76 to 91: every record gets its key as \<open>taskRunId\<close>, and a record with a
  \<open>status\<close> is entered under its \<open>pipelineTaskName\<close>, a later record replacing an
  earlier one of the same task.
\<close>

definition stampRunIds :: "(string \<times> run_record) list \<Rightarrow> (string \<times> run_record) list" where
  "stampRunIds xs = map (\<lambda>(k, r). (k, r\<lparr>taskRunId := Some k\<rparr>)) xs"

fun indexRuns ::
  "(string \<Rightarrow> run_ref) \<Rightarrow> (string \<times> run_record) list \<Rightarrow> status_map \<Rightarrow> status_map" where
  "indexRuns mk [] sm = sm"
| "indexRuns mk ((k, r) # xs) sm =
     indexRuns mk xs (if rr_status r \<noteq> None then sm(pipelineTaskName r \<mapsto> mk k) else sm)"

section \<open>checkParams\<close>

text \<open>
  \<open>checkParams\<close> is called with a task and with a condition object of a task; it reads
  \<open>name\<close>, \<open>conditionRef\<close> and \<open>params\<close> of either.
\<close>

record component =
  comp_name :: "string option"
  comp_conditionRef :: "string option"
  comp_params :: "named_value list option"

definition taskComponent :: "pipeline_task \<Rightarrow> component" where
  "taskComponent t =
     \<lparr>comp_name = Some (task_name t), comp_conditionRef = None, comp_params = task_params t\<rparr>"

definition conditionComponent :: "task_condition \<Rightarrow> component" where
  "conditionComponent c =
     \<lparr>comp_name = cond_name c, comp_conditionRef = conditionRef c, comp_params = cond_params c\<rparr>"

text \<open>\<open>for (const x of xs) if (x['name'] === wanted) paramValue = x['value']\<close>\<close>

definition resolveFrom :: "named_value list \<Rightarrow> string option \<Rightarrow> string \<Rightarrow> string" where
  "resolveFrom xs wanted v0 =
     foldl (\<lambda>v x. if Some (nv_name x) = wanted then nv_value x else v) v0 xs"

text \<open>
  \<open>for (const statusParam of ...['taskSpec']['params'])
     if (statusParam['name'] === param['name']) statusParam['value'] = paramValue\<close>
\<close>

definition writeParamValue :: "string \<Rightarrow> string \<Rightarrow> run_record \<Rightarrow> run_record" where
  "writeParamValue pname v r =
     r\<lparr>rr_status :=
         map_option (\<lambda>s. s\<lparr>taskSpec :=
           map_option (\<lambda>ts. ts\<lparr>ts_params :=
             map_option (map (\<lambda>sp. if sp_name sp = pname then sp\<lparr>sp_value := Some v\<rparr> else sp))
               (ts_params ts)\<rparr>)
             (taskSpec s)\<rparr>)
           (rr_status r)\<rparr>"

text \<open>
  One round of the loop over \<open>component['params']\<close> (lines 238 to 274), in its two
  parts. Lines 239 to 265: the value of the parameter and, for a reference to the result
  of a parent task whose first condition is \<open>Succeeded\<close>, the edge from the parent.
\<close>

definition resolveParam ::
  "status_map \<Rightarrow> workflow_status \<Rightarrow> named_value list \<Rightarrow> string option \<Rightarrow> named_value
     \<Rightarrow> edge list \<Rightarrow> js_error + edge list \<times> string" where
  "resolveParam sm st pipelineParams child p edges =
     andThen (decodeParam (nv_value p)) (\<lambda>splitParam.
       if \<not> truthy (task splitParam)
       then Inr (edges, resolveFrom pipelineParams (param splitParam) (nv_value p))
       else andThen (lookupStatus st sm (task splitParam)) (\<lambda>parent.
         case parent of
           None \<Rightarrow> Inr (edges, nv_value p)
         | Some (ref, r, s) \<Rightarrow>
             (case conditions s of
                None \<Rightarrow> Inr (edges, nv_value p)
              | Some cs \<Rightarrow>
                  (case js_nth cs 0 of
                     None \<Rightarrow> Inl TypeError
                   | Some c \<Rightarrow>
                       if cond_type c = ''Succeeded''
                       then Inr (edges @ [(podName s, child)],
                                 resolveFrom (orEmpty (taskResults s)) (param splitParam)
                                   (nv_value p))
                       else Inr (edges, nv_value p)))))"

text \<open>Lines 266 to 273: the value is written to the record of the component itself.\<close>

definition recordParam ::
  "status_map \<Rightarrow> string option \<Rightarrow> string \<Rightarrow> string \<Rightarrow> workflow_status
     \<Rightarrow> js_error + workflow_status" where
  "recordParam sm compName pname paramValue st =
     andThen (lookupStatus st sm compName) (\<lambda>own.
       case own of
         None \<Rightarrow> Inr st
       | Some (ref, r, s) \<Rightarrow>
           (case taskSpec s of
              None \<Rightarrow> Inr st
            | Some ts \<Rightarrow>
                (case ts_params ts of
                   None \<Rightarrow> Inl TypeError
                 | Some sps \<Rightarrow> Inr (modify ref (writeParamValue pname paramValue) st))))"

definition checkParam ::
  "status_map \<Rightarrow> named_value list \<Rightarrow> string option \<Rightarrow> string option \<Rightarrow> named_value
     \<Rightarrow> edge list \<times> workflow_status \<Rightarrow> js_error + edge list \<times> workflow_status" where
  "checkParam sm pipelineParams compName child p acc =
     (case acc of (edges, st) \<Rightarrow>
      andThen (resolveParam sm st pipelineParams child p edges) (\<lambda>(edges', paramValue).
      andThen (recordParam sm compName (nv_name p) paramValue st) (\<lambda>st'.
        Inr (edges', st'))))"

definition componentId ::
  "status_map \<Rightarrow> workflow_status \<Rightarrow> component \<Rightarrow> string \<Rightarrow> js_error + string option" where
  "componentId sm st cmp ownerTask =
     (if ownerTask \<noteq> [] then Inr (comp_conditionRef cmp)
      else andThen (lookupStatus st sm (comp_name cmp)) (\<lambda>own.
        case own of
          None \<Rightarrow> Inr (comp_name cmp)
        | Some (ref, r, s) \<Rightarrow>
            Inr (if podName s \<noteq> Some [] \<and> podName s \<noteq> None then podName s
                 else comp_name cmp)))"

definition checkParams ::
  "status_map \<Rightarrow> named_value list \<Rightarrow> component \<Rightarrow> string \<Rightarrow> workflow_status
     \<Rightarrow> js_error + edge list \<times> workflow_status" where
  "checkParams sm pipelineParams cmp ownerTask st =
     andThen (componentId sm st cmp ownerTask) (\<lambda>cid.
       foldE (checkParam sm pipelineParams (comp_name cmp)
                (if ownerTask = [] then cid else Some ownerTask))
         (orEmpty (comp_params cmp)) ([], st))"

section \<open>createRuntimeGraph\<close>

text \<open>
  The status constants of \<open>NodePhase\<close> (\<open>StatusUtils\<close> is not among the sources).
  Modelled from the spec: the pending, condition-check-failed, completed and succeeded
  phases, under the names the enumeration gives them.
\<close>

definition PENDING :: string where
  "PENDING = ''Pending''"

definition CONDITIONCHECKFAILED :: string where
  "CONDITIONCHECKFAILED = ''ConditionCheckFailed''"

definition COMPLETED :: string where
  "COMPLETED = ''Completed''"

definition SUCCEEDED :: string where
  "SUCCEEDED = ''Succeeded''"

definition getStatus :: "run_record option \<Rightarrow> js_error + string" where
  "getStatus execStatus =
     (case execStatus of
        None \<Rightarrow> Inr PENDING
      | Some r \<Rightarrow>
          (case rr_status r of
             None \<Rightarrow> Inr PENDING
           | Some s \<Rightarrow>
               (case conditions s of
                  None \<Rightarrow> Inr PENDING
                | Some cs \<Rightarrow>
                    (case js_nth cs 0 of
                       None \<Rightarrow> Inl TypeError
                     | Some c \<Rightarrow> Inr (cond_reason c)))))"

text \<open>
  \<open>param && param.task && statusMap.get(param.task)\<close> for the input of a
  when-expression (lines 98 to 100 and 127 to 129): the record the guard refers to.
\<close>

definition whenParent ::
  "status_map \<Rightarrow> workflow_status \<Rightarrow> when_expression
     \<Rightarrow> js_error + (run_ref \<times> run_record) option" where
  "whenParent sm st condition =
     andThen (decodeParam (input condition)) (\<lambda>p.
       if truthy (task p) then Inr (statusMap_get st sm (task p)) else Inr None)"

text \<open>Lines 94 to 107: the tasks without a status whose guard refers to a task that has one.\<close>

fun whenMatches ::
  "status_map \<Rightarrow> workflow_status \<Rightarrow> when_expression list \<Rightarrow> js_error + bool" where
  "whenMatches sm st [] = Inr False"
| "whenMatches sm st (condition # rest) =
     andThen (whenParent sm st condition) (\<lambda>parent.
       if parent \<noteq> None then Inr True else whenMatches sm st rest)"

fun conditionTasksOf ::
  "status_map \<Rightarrow> workflow_status \<Rightarrow> pipeline_task list \<Rightarrow> js_error + string list" where
  "conditionTasksOf sm st [] = Inr []"
| "conditionTasksOf sm st (t # ts) =
     (if statusMap_get st sm (Some (task_name t)) = None
      then andThen (whenMatches sm st (orEmpty (task_when t))) (\<lambda>b.
           andThen (conditionTasksOf sm st ts) (\<lambda>names.
             Inr (if b then task_name t # names else names)))
      else conditionTasksOf sm st ts)"

text \<open>Lines 113 to 118.\<close>

definition taskIdOf :: "status_map \<Rightarrow> workflow_status \<Rightarrow> pipeline_task \<Rightarrow> js_error + string" where
  "taskIdOf sm st t =
     andThen (lookupStatus st sm (Some (task_name t))) (\<lambda>own.
       case own of
         None \<Rightarrow> Inr (task_name t)
       | Some (ref, r, s) \<Rightarrow>
           (case podName s of
              None \<Rightarrow> Inr (task_name t)
            | Some pod \<Rightarrow> Inr (if pod \<noteq> [] then pod else task_name t)))"

text \<open>
  \<open>statusMap.get(x)['status']['podName'] || statusMap.get(x)['pipelineTaskName']\<close>, the
  parent identity of a when-guard edge and of an any-task edge.
\<close>

definition parentIdOrName :: "run_record \<Rightarrow> js_error + string option" where
  "parentIdOrName r =
     (case rr_status r of
        None \<Rightarrow> Inl TypeError
      | Some s \<Rightarrow> Inr (js_or (podName s) (Some (pipelineTaskName r))))"

text \<open>Lines 122 and 123: the parameters of the task's condition objects.\<close>

definition conditionsEdges ::
  "status_map \<Rightarrow> named_value list \<Rightarrow> string \<Rightarrow> task_condition list
     \<Rightarrow> edge list \<times> workflow_status \<Rightarrow> js_error + edge list \<times> workflow_status" where
  "conditionsEdges sm pipelineParams taskId conds acc =
     foldE (\<lambda>condition (edges, st).
              andThen (checkParams sm pipelineParams (conditionComponent condition) taskId st)
                (\<lambda>(es, st'). Inr (edges @ es, st')))
       conds acc"

text \<open>Lines 126 to 136: the when-guards.\<close>

fun whenEdges ::
  "status_map \<Rightarrow> workflow_status \<Rightarrow> string \<Rightarrow> when_expression list \<Rightarrow> js_error + edge list" where
  "whenEdges sm st taskId [] = Inr []"
| "whenEdges sm st taskId (condition # rest) =
     andThen (whenParent sm st condition) (\<lambda>parent.
     andThen (case parent of
                None \<Rightarrow> Inr []
              | Some (ref, r) \<Rightarrow>
                  andThen (parentIdOrName r) (\<lambda>parentId. Inr [(parentId, Some taskId)]))
       (\<lambda>es. andThen (whenEdges sm st taskId rest) (\<lambda>es'. Inr (es @ es'))))"

text \<open>
  Lines 139 to 176: the any-task sequencer. The test of line 140 to 146, and the loop over
  the arguments with its two flags. The loop calls \<open>graph.setEdge\<close> at once; the model
  returns the calls in their order, and \<open>processTask\<close> below makes them before the
  calls for the collected \<open>edges\<close> of line 189.
\<close>

definition anyTaskArgs :: "pipeline_task \<Rightarrow> string list option" where
  "anyTaskArgs t =
     (case task_taskSpec t of
        None \<Rightarrow> None
      | Some ts \<Rightarrow>
          (case steps ts of
             None \<Rightarrow> None
           | Some ss \<Rightarrow>
               (case js_nth ss 0 of
                  None \<Rightarrow> None
                | Some s0 \<Rightarrow>
                    (case args s0 of
                       None \<Rightarrow> None
                     | Some arglist \<Rightarrow>
                         (case command s0 of
                            None \<Rightarrow> None
                          | Some cmd \<Rightarrow>
                              if js_nth cmd 0 = Some ''any-task'' then Some arglist else None)))))"

definition anyTaskEdge ::
  "status_map \<Rightarrow> workflow_status \<Rightarrow> string \<Rightarrow> string \<Rightarrow> js_error + edge list" where
  "anyTaskEdge sm st taskId parentTask =
     (case statusMap_get st sm (Some parentTask) of
        None \<Rightarrow> Inr []
      | Some (ref, r) \<Rightarrow>
          andThen (parentIdOrName r) (\<lambda>parentId. Inr [(parentId, Some taskId)]))"

fun anyTaskEdges ::
  "status_map \<Rightarrow> workflow_status \<Rightarrow> string \<Rightarrow> string list \<Rightarrow> js_error + edge list" where
  "anyTaskEdges sm st taskId [] = Inr []"
| "anyTaskEdges sm st taskId (parentTask # rest) =
     andThen (anyTaskEdge sm st taskId parentTask) (\<lambda>es.
     andThen (anyTaskEdges sm st taskId rest) (\<lambda>es'. Inr (es @ es')))"

fun anyTaskLoop ::
  "status_map \<Rightarrow> workflow_status \<Rightarrow> string \<Rightarrow> string list \<Rightarrow> bool \<Rightarrow> bool
     \<Rightarrow> js_error + edge list" where
  "anyTaskLoop sm st taskId [] isNextTaskList isNextCondition = Inr []"
| "anyTaskLoop sm st taskId (arg # rest) isNextTaskList isNextCondition =
     (if arg = ''--taskList'' then anyTaskLoop sm st taskId rest True isNextCondition
      else if arg = ''-c'' then anyTaskLoop sm st taskId rest isNextTaskList True
      else if isNextTaskList then
        andThen (anyTaskEdges sm st taskId (js_split CHR '','' arg)) (\<lambda>es.
        andThen (anyTaskLoop sm st taskId rest False isNextCondition) (\<lambda>es'. Inr (es @ es')))
      else if isNextCondition then
        andThen (anyTaskEdge sm st taskId
                   (substring arg (indexOf arg ''results_'' + 8) (indexOf arg ''_output'')))
          (\<lambda>es.
        andThen (anyTaskLoop sm st taskId rest isNextTaskList False) (\<lambda>es'. Inr (es @ es')))
      else anyTaskLoop sm st taskId rest isNextTaskList isNextCondition)"

text \<open>Lines 178 to 188: the explicit predecessors.\<close>

fun runAfterEdges ::
  "status_map \<Rightarrow> workflow_status \<Rightarrow> string \<Rightarrow> string list \<Rightarrow> js_error + edge list" where
  "runAfterEdges sm st taskId [] = Inr []"
| "runAfterEdges sm st taskId (parentTask # rest) =
     andThen (lookupStatus st sm (Some parentTask)) (\<lambda>parent.
     andThen (case parent of
                None \<Rightarrow> Inr []
              | Some (ref, r, s) \<Rightarrow>
                  (case conditions s of
                     None \<Rightarrow> Inl TypeError
                   | Some cs \<Rightarrow>
                       (case js_nth cs 0 of
                          None \<Rightarrow> Inl TypeError
                        | Some c \<Rightarrow>
                            Inr (if cond_type c = ''Succeeded''
                                 then [(podName s, Some taskId)] else []))))
       (\<lambda>es. andThen (runAfterEdges sm st taskId rest) (\<lambda>es'. Inr (es @ es'))))"

text \<open>Lines 191 to 196: the status of the node.\<close>

definition nodeStatus ::
  "status_map \<Rightarrow> workflow_status \<Rightarrow> string list \<Rightarrow> string list \<Rightarrow> pipeline_task
     \<Rightarrow> js_error + string" where
  "nodeStatus sm st conditionTasks skipped t =
     (if task_name t \<notin> set conditionTasks
      then getStatus (map_option snd (statusMap_get st sm (Some (task_name t))))
      else if task_name t \<in> set skipped then Inr CONDITIONCHECKFAILED
      else Inr PENDING)"

text \<open>
  The body of the loop over the tasks (lines 109 to 216). \<open>taskEdges\<close> is lines 112 to
  196 for a task that has a status or is a condition task: the node identity, the
  status, the \<open>setEdge\<close> calls of the any-task loop, the collected edges, and the store
  as \<open>checkParams\<close> leaves it.
\<close>

definition taskEdges ::
  "status_map \<Rightarrow> named_value list \<Rightarrow> string list \<Rightarrow> string list \<Rightarrow> pipeline_task
     \<Rightarrow> workflow_status
     \<Rightarrow> js_error + string \<times> string \<times> edge list \<times> edge list \<times> workflow_status" where
  "taskEdges sm pipelineParams conditionTasks skipped t st =
     andThen (taskIdOf sm st t) (\<lambda>taskId.
     andThen (checkParams sm pipelineParams (taskComponent t) [] st) (\<lambda>params_result.
     andThen (conditionsEdges sm pipelineParams taskId (orEmpty (task_conditions t))
                params_result) (\<lambda>(edges2, st2).
     andThen (whenEdges sm st2 taskId (orEmpty (task_when t))) (\<lambda>edges3.
     andThen (case anyTaskArgs t of
                None \<Rightarrow> Inr []
              | Some arglist \<Rightarrow> anyTaskLoop sm st2 taskId arglist False False) (\<lambda>direct.
     andThen (runAfterEdges sm st2 taskId (orEmpty (task_runAfter t))) (\<lambda>edges4.
     andThen (nodeStatus sm st2 conditionTasks skipped t) (\<lambda>status.
       Inr (taskId, status, direct, edges2 @ edges3 @ edges4, st2))))))))"

definition materialized ::
  "status_map \<Rightarrow> workflow_status \<Rightarrow> string list \<Rightarrow> pipeline_task \<Rightarrow> bool" where
  "materialized sm st conditionTasks t =
     (statusMap_get st sm (Some (task_name t)) \<noteq> None \<or> task_name t \<in> set conditionTasks)"

definition processTask ::
  "status_map \<Rightarrow> named_value list \<Rightarrow> string list \<Rightarrow> string list \<Rightarrow> string list
     \<Rightarrow> pipeline_task \<Rightarrow> graph \<times> workflow_status \<Rightarrow> js_error + graph \<times> workflow_status" where
  "processTask sm pipelineParams conditionTasks skipped exitHandlers t acc =
     (case acc of (g, st) \<Rightarrow>
      if \<not> materialized sm st conditionTasks t then Inr (g, st)
      else
        andThen (taskEdges sm pipelineParams conditionTasks skipped t st)
          (\<lambda>(taskId, status, direct, edges, st').
             Inr (setNode taskId
                    \<lparr>ni_status = status, ni_exitHandler = (task_name t \<in> set exitHandlers)\<rparr>
                    (setEdges edges (setEdges direct g)),
                  st')))"

text \<open>Lines 62 to 73 and 76 to 91.\<close>

definition allTasks :: "workflow \<Rightarrow> pipeline_task list" where
  "allTasks workflow =
     orEmpty (tasks (pipelineSpec (wf_spec workflow))) @
     orEmpty (finally_tasks (pipelineSpec (wf_spec workflow)))"

definition exitHandlersOf :: "workflow \<Rightarrow> string list" where
  "exitHandlersOf workflow =
     map task_name (orEmpty (finally_tasks (pipelineSpec (wf_spec workflow))))"

definition stampStatus :: "workflow_status \<Rightarrow> workflow_status" where
  "stampStatus st =
     st\<lparr>taskRuns := map_option stampRunIds (taskRuns st),
        runs := map_option stampRunIds (runs st)\<rparr>"

definition buildStatusMap :: "workflow_status \<Rightarrow> status_map" where
  "buildStatusMap st =
     indexRuns RunRef (orEmpty (runs st)) (indexRuns TaskRunRef (orEmpty (taskRuns st)) Map.empty)"

text \<open>
  \<open>createRuntimeGraph\<close> returns the graph; the model returns with it the document as
  the run leaves it. The test of line 55 to 59 is \<open>!workflow.status.taskRuns\<close>: a status
  object without keys has no \<open>taskRuns\<close> either. A document without a \<open>status\<close> object
  passes the test and fails at line 65.
\<close>

definition createRuntimeGraph :: "workflow \<Rightarrow> js_error + graph \<times> workflow" where
  "createRuntimeGraph workflow =
     (case wf_status workflow of
        None \<Rightarrow> Inl TypeError
      | Some st \<Rightarrow>
          if taskRuns st = None then Inr (emptyGraph, workflow)
          else
            andThen (conditionTasksOf (buildStatusMap st) (stampStatus st) (allTasks workflow))
              (\<lambda>conditionTasks.
            andThen (foldE (processTask (buildStatusMap st)
                              (orEmpty (wf_params (wf_spec workflow))) conditionTasks
                              (orEmpty (skippedTasks st)) (exitHandlersOf workflow))
                       (allTasks workflow) (emptyGraph, stampStatus st))
              (\<lambda>(g, st'). Inr (g, workflow\<lparr>wf_status := Some st'\<rparr>))))"

section \<open>getNodeInputOutputArtifacts\<close>

text \<open>
  \<open>str.replace(pattern, replacement)\<close> with a string pattern replaces the first
  occurrence, and expands in the replacement the patterns \<open>$$\<close>, \<open>$&\<close>, \<open>$`\<close>
  (character 0x60) and \<open>$'\<close> (character 0x27) of ECMAScript's GetSubstitution.
\<close>

fun getSubstitution :: "string \<Rightarrow> string \<Rightarrow> string \<Rightarrow> string \<Rightarrow> string" where
  "getSubstitution matched pre post [] = []"
| "getSubstitution matched pre post [c] = [c]"
| "getSubstitution matched pre post (c # d # r) =
     (if c = CHR ''$'' \<and> d = CHR ''$'' then CHR ''$'' # getSubstitution matched pre post r
      else if c = CHR ''$'' \<and> d = CHR ''&'' then matched @ getSubstitution matched pre post r
      else if c = CHR ''$'' \<and> d = CHR 0x60 then pre @ getSubstitution matched pre post r
      else if c = CHR ''$'' \<and> d = CHR 0x27 then post @ getSubstitution matched pre post r
      else c # getSubstitution matched pre post (d # r))"

definition js_replace :: "string \<Rightarrow> string \<Rightarrow> string \<Rightarrow> string" where
  "js_replace s pat replacement =
     (let pos = indexOf s pat
      in if pos = -1 then s
         else (let pre = take (nat pos) s;
                   post = drop (nat pos + length pat) s
               in pre @ getSubstitution pat pre post replacement @ post))"

record s3_artifact =
  s3_endpoint :: "string option"
  s3_bucket :: "string option"
  s3_insecure :: bool
  s3_key :: string

fun mapE :: "('a \<Rightarrow> 'e + 'b) \<Rightarrow> 'a list \<Rightarrow> 'e + 'b list" where
  "mapE f [] = Inr []"
| "mapE f (x # xs) = andThen (f x) (\<lambda>y. andThen (mapE f xs) (\<lambda>ys. Inr (y # ys)))"

text \<open>Lines 387 to 404: the task of the node and its status, the last match winning.\<close>

fun findNodeTask ::
  "(run_record \<Rightarrow> bool) \<Rightarrow> (string \<times> run_record) list \<Rightarrow> string \<times> string
     \<Rightarrow> js_error + string \<times> string" where
  "findNodeTask matches [] acc = Inr acc"
| "findNodeTask matches ((k, r) # xs) acc =
     (if matches r
      then andThen (getStatus (Some r)) (\<lambda>taskStatus.
             findNodeTask matches xs (pipelineTaskName r, taskStatus))
      else findNodeTask matches xs acc)"

definition taskRunOfNode :: "string option \<Rightarrow> run_record \<Rightarrow> bool" where
  "taskRunOfNode nodeId r =
     (case rr_status r of None \<Rightarrow> False | Some s \<Rightarrow> podName s = nodeId)"

definition runOfNode :: "string option \<Rightarrow> run_record \<Rightarrow> bool" where
  "runOfNode nodeId r = (rr_status r \<noteq> None \<and> Some (pipelineTaskName r) = nodeId)"

text \<open>
  \<open>((((task.taskSpec||{}).metadata||{}).labels||{})
       ['pipelines.kubeflow.org/cache_enabled']||'false')\<close>
\<close>

definition cacheEnabledLabel :: "pipeline_task \<Rightarrow> string" where
  "cacheEnabledLabel t =
     (case task_taskSpec t of
        None \<Rightarrow> ''false''
      | Some ts \<Rightarrow>
          (case ts_metadata ts of
             None \<Rightarrow> ''false''
           | Some m \<Rightarrow>
               (case labels m of
                  None \<Rightarrow> ''false''
                | Some ls \<Rightarrow>
                    (case map_of ls ''pipelines.kubeflow.org/cache_enabled'' of
                       None \<Rightarrow> ''false''
                     | Some v \<Rightarrow> if v = [] then ''false'' else v))))"

text \<open>
  Lines 427 to 436 and 465 to 474: the run identifier of an artifact, set to the cached
  run by every task that is the producer, is cache-enabled and comes with a cached run.
\<close>

definition pipelineRunIDFor ::
  "pipeline_task list \<Rightarrow> string \<Rightarrow> string option \<Rightarrow> string option \<Rightarrow> string" where
  "pipelineRunIDFor ts runName producer cachedPipelineRun =
     foldl (\<lambda>pipelineRunID t.
              if producer = Some (task_name t) \<and> cacheEnabledLabel t = ''true'' \<and>
                 truthy cachedPipelineRun
              then js_string cachedPipelineRun else pipelineRunID)
       runName ts"

definition runNameOf :: "workflow_metadata \<Rightarrow> string" where
  "runNameOf md = (case md_name md of None \<Rightarrow> [] | Some n \<Rightarrow> n)"

definition inputArtifact ::
  "workflow \<Rightarrow> workflow_metadata \<Rightarrow> wf_annotations \<Rightarrow> string option \<Rightarrow> input_artifact
     \<Rightarrow> js_error + string \<times> s3_artifact" where
  "inputArtifact workflow md ann cachedPipelineRun artifact =
     (case tasks (pipelineSpec (wf_spec workflow)) of
        None \<Rightarrow> Inl TypeError
      | Some ts \<Rightarrow>
          Inr (ia_name artifact,
               \<lparr>s3_endpoint = artifact_endpoint ann,
                s3_bucket = artifact_bucket ann,
                s3_insecure = (artifact_endpoint_scheme ann = Some ''http://''),
                s3_key = ''artifacts/'' @
                  pipelineRunIDFor ts (runNameOf md) (Some (parent_task artifact))
                    cachedPipelineRun @
                  ''/'' @ parent_task artifact @ ''/'' @
                  substring_from (ia_name artifact) (int (length (parent_task artifact)) + 1) @
                  ''.tgz''\<rparr>))"

definition outputArtifact ::
  "workflow \<Rightarrow> workflow_metadata \<Rightarrow> wf_annotations \<Rightarrow> string option \<Rightarrow> output_artifact
     \<Rightarrow> js_error + string \<times> s3_artifact" where
  "outputArtifact workflow md ann cachedPipelineRun artifact =
     (case oa_key artifact of
        None \<Rightarrow> Inl TypeError
      | Some k \<Rightarrow>
          (case tasks (pipelineSpec (wf_spec workflow)) of
             None \<Rightarrow> Inl TypeError
           | Some ts \<Rightarrow>
               Inr (oa_name artifact,
                    \<lparr>s3_endpoint = artifact_endpoint ann,
                     s3_bucket = artifact_bucket ann,
                     s3_insecure = (artifact_endpoint_scheme ann = Some ''http://''),
                     s3_key = js_replace k ''$PIPELINERUN''
                       (pipelineRunIDFor ts (runNameOf md) (js_nth (js_split CHR ''/'' k) 2)
                          cachedPipelineRun)\<rparr>)))"

definition declaredInputs :: "wf_annotations \<Rightarrow> string \<Rightarrow> input_artifact list" where
  "declaredInputs ann taskName =
     (case input_artifacts ann of None \<Rightarrow> [] | Some m \<Rightarrow> orEmpty (map_of m taskName))"

definition declaredOutputs :: "wf_annotations \<Rightarrow> string \<Rightarrow> output_artifact list option" where
  "declaredOutputs ann taskName =
     (case output_artifacts ann of None \<Rightarrow> None | Some m \<Rightarrow> map_of m taskName)"

text \<open>Lines 408 to 488: the artifacts of the task that was found.\<close>

definition resolveArtifacts ::
  "workflow \<Rightarrow> workflow_metadata \<Rightarrow> wf_annotations \<Rightarrow> string option \<Rightarrow> string \<Rightarrow> string
     \<Rightarrow> js_error + (string \<times> s3_artifact) list \<times> (string \<times> s3_artifact) list" where
  "resolveArtifacts workflow md ann cachedPipelineRun taskName taskStatus =
     andThen (mapE (inputArtifact workflow md ann cachedPipelineRun)
                (declaredInputs ann taskName))
       (\<lambda>inputArtifacts.
          case declaredOutputs ann taskName of
            None \<Rightarrow> Inr (inputArtifacts, [])
          | Some raw \<Rightarrow>
              (case js_nth raw 0 of
                 None \<Rightarrow> Inr (inputArtifacts, [])
               | Some first \<Rightarrow>
                   if \<not> truthy (oa_key first) \<or>
                      (taskStatus \<noteq> COMPLETED \<and> taskStatus \<noteq> SUCCEEDED)
                   then Inr (inputArtifacts, [])
                   else andThen (mapE (outputArtifact workflow md ann cachedPipelineRun) raw)
                          (\<lambda>outputArtifacts. Inr (inputArtifacts, outputArtifacts))))"

definition getNodeInputOutputArtifacts ::
  "workflow \<Rightarrow> string option \<Rightarrow> string option
     \<Rightarrow> js_error + (string \<times> s3_artifact) list \<times> (string \<times> s3_artifact) list" where
  "getNodeInputOutputArtifacts workflow nodeId cachedPipelineRun =
     (case wf_metadata workflow of
        None \<Rightarrow> Inr ([], [])
      | Some md \<Rightarrow>
     (case wf_status workflow of
        None \<Rightarrow> Inr ([], [])
      | Some st \<Rightarrow>
     (if taskRuns st = None \<and> runs st = None then Inr ([], [])
      else
     (case annotations md of
        None \<Rightarrow> Inr ([], [])
      | Some ann \<Rightarrow>
          andThen (findNodeTask (taskRunOfNode nodeId) (orEmpty (taskRuns st)) ([], SUCCEEDED))
            (\<lambda>found.
          andThen (findNodeTask (runOfNode nodeId) (orEmpty (runs st)) found)
            (\<lambda>(taskName, taskStatus).
          if taskName = [] then Inr ([], [])
          else resolveArtifacts workflow md ann cachedPipelineRun taskName taskStatus))))))"

text \<open>
  The rule in the words of the specification: the cached run's identifier when the
  producing task is flagged cache-enabled and a cached run is supplied, the name of the
  run otherwise.
\<close>

definition cacheEnabledTask :: "workflow \<Rightarrow> string option \<Rightarrow> bool" where
  "cacheEnabledTask workflow producer =
     (\<exists>t \<in> set (orEmpty (tasks (pipelineSpec (wf_spec workflow)))).
        producer = Some (task_name t) \<and> cacheEnabledLabel t = ''true'')"

definition spec_runId :: "workflow \<Rightarrow> workflow_metadata \<Rightarrow> string option \<Rightarrow> string option \<Rightarrow> string" where
  "spec_runId workflow md producer cachedPipelineRun =
     (if cacheEnabledTask workflow producer \<and> truthy cachedPipelineRun
      then js_string cachedPipelineRun else runNameOf md)"

section \<open>What a run writes\<close>

text \<open>
  A run writes two things into the document: the \<open>taskRunId\<close> of every record and the
  \<open>value\<close> of recorded parameters. \<open>unwritten\<close> is the status object with both blanked;
  two status objects with the same \<open>unwritten\<close> differ in nothing else.
\<close>

definition unwritten_status :: "run_status \<Rightarrow> run_status" where
  "unwritten_status s =
     s\<lparr>taskSpec :=
         map_option (\<lambda>ts. ts\<lparr>ts_params :=
           map_option (map (\<lambda>sp. sp\<lparr>sp_value := None\<rparr>)) (ts_params ts)\<rparr>)
           (taskSpec s)\<rparr>"

definition unwritten_record :: "run_record \<Rightarrow> run_record" where
  "unwritten_record r =
     r\<lparr>taskRunId := None, rr_status := map_option unwritten_status (rr_status r)\<rparr>"

definition unwritten_entries :: "(string \<times> run_record) list \<Rightarrow> (string \<times> run_record) list" where
  "unwritten_entries xs = map (\<lambda>(k, r). (k, unwritten_record r)) xs"

definition unwritten :: "workflow_status \<Rightarrow> workflow_status" where
  "unwritten st =
     st\<lparr>taskRuns := map_option unwritten_entries (taskRuns st),
        runs := map_option unwritten_entries (runs st)\<rparr>"

definition sameStore :: "workflow_status \<Rightarrow> workflow_status \<Rightarrow> bool" where
  "sameStore st st' = (unwritten st = unwritten st')"

section \<open>Nodes and edges of a graph\<close>

definition nodeIds :: "graph \<Rightarrow> string set" where
  "nodeIds g = fst ` set (g_nodes g)"

definition edgeSet :: "graph \<Rightarrow> (string \<times> string) set" where
  "edgeSet g = set (g_edges g)"

definition closedGraph :: "graph \<Rightarrow> bool" where
  "closedGraph g = (fst ` edgeSet g \<subseteq> nodeIds g \<and> snd ` edgeSet g \<subseteq> nodeIds g)"

text \<open>The edge that \<open>graph.setEdge(parent, child)\<close> stores.\<close>

definition edgeOf :: "edge \<Rightarrow> string \<times> string" where
  "edgeOf e = (js_string (fst e), js_string (snd e))"

section \<open>References and their parents\<close>

text \<open>The task a value or a when-input refers to: \<open>param && param.task\<close>.\<close>

definition referencedTask :: "string \<Rightarrow> string option" where
  "referencedTask s =
     (case decodeParam s of
        Inl e \<Rightarrow> None
      | Inr p \<Rightarrow> if truthy (task p) then task p else None)"

text \<open>The task names that the arguments of an any-task step refer to (lines 150 to 175).\<close>

fun anyTaskRefs :: "string list \<Rightarrow> bool \<Rightarrow> bool \<Rightarrow> string list" where
  "anyTaskRefs [] isNextTaskList isNextCondition = []"
| "anyTaskRefs (arg # rest) isNextTaskList isNextCondition =
     (if arg = ''--taskList'' then anyTaskRefs rest True isNextCondition
      else if arg = ''-c'' then anyTaskRefs rest isNextTaskList True
      else if isNextTaskList then js_split CHR '','' arg @ anyTaskRefs rest False isNextCondition
      else if isNextCondition then
        substring arg (indexOf arg ''results_'' + 8) (indexOf arg ''_output'') #
        anyTaskRefs rest isNextTaskList False
      else anyTaskRefs rest isNextTaskList isNextCondition)"

text \<open>
  The record of task \<open>n\<close> in the status map has \<open>Succeeded\<close> as the type of its first
  condition, and \<open>pod\<close> is its \<open>status.podName\<close>.
\<close>

definition succeededParent ::
  "status_map \<Rightarrow> workflow_status \<Rightarrow> string \<Rightarrow> string option \<Rightarrow> bool" where
  "succeededParent sm st n pod =
     (case lookupStatus st sm (Some n) of
        Inr (Some (ref, r, s)) \<Rightarrow>
          pod = podName s \<and>
          (case conditions s of
             Some cs \<Rightarrow> (case js_nth cs 0 of Some c \<Rightarrow> cond_type c = ''Succeeded'' | None \<Rightarrow> False)
           | None \<Rightarrow> False)
      | _ \<Rightarrow> False)"

text \<open>
  The record of task \<open>n\<close> is in the status map, and \<open>pid\<close> is its
  \<open>status.podName || pipelineTaskName\<close>.
\<close>

definition presentParent ::
  "status_map \<Rightarrow> workflow_status \<Rightarrow> string \<Rightarrow> string option \<Rightarrow> bool" where
  "presentParent sm st n pid =
     (case statusMap_get st sm (Some n) of
        Some (ref, r) \<Rightarrow> parentIdOrName r = Inr pid
      | None \<Rightarrow> False)"

text \<open>
  The tasks that a task refers to, by the kind of the reference: in the values of its
  parameters and of the parameters of its conditions, in the inputs of its when-guards,
  and in the arguments of its any-task step.
\<close>

definition valueRefs :: "named_value list option \<Rightarrow> string list" where
  "valueRefs ps = List.map_filter (\<lambda>b. referencedTask (nv_value b)) (orEmpty ps)"

definition paramRefs :: "pipeline_task \<Rightarrow> string list" where
  "paramRefs t =
     valueRefs (task_params t) @
     concat (map (\<lambda>c. valueRefs (cond_params c)) (orEmpty (task_conditions t)))"

definition whenRefs :: "pipeline_task \<Rightarrow> string list" where
  "whenRefs t = List.map_filter (\<lambda>w. referencedTask (input w)) (orEmpty (task_when t))"

definition anyRefs :: "pipeline_task \<Rightarrow> string list" where
  "anyRefs t = (case anyTaskArgs t of None \<Rightarrow> [] | Some arglist \<Rightarrow> anyTaskRefs arglist False False)"

text \<open>
  The edges of a task by where they come from, on one store: its node identity, the edges
  that \<open>checkParams\<close> returns for the task and for its conditions, the edges of the
  \<open>runAfter\<close> loop, the edges of the when-guards, and the edges of the any-task loop.
\<close>

definition attributedEdges ::
  "status_map \<Rightarrow> named_value list \<Rightarrow> workflow_status \<Rightarrow> pipeline_task
     \<Rightarrow> js_error + string \<times> edge list \<times> edge list \<times> edge list \<times> edge list" where
  "attributedEdges sm pipelineParams st t =
     andThen (taskIdOf sm st t) (\<lambda>taskId.
     andThen (checkParams sm pipelineParams (taskComponent t) [] st) (\<lambda>(ps, st1).
     andThen (conditionsEdges sm pipelineParams taskId (orEmpty (task_conditions t)) ([], st))
       (\<lambda>(cs, st2).
     andThen (runAfterEdges sm st taskId (orEmpty (task_runAfter t))) (\<lambda>rs.
     andThen (whenEdges sm st taskId (orEmpty (task_when t))) (\<lambda>ws.
     andThen (case anyTaskArgs t of
                None \<Rightarrow> Inr []
              | Some arglist \<Rightarrow> anyTaskLoop sm st taskId arglist False False) (\<lambda>direct.
       Inr (taskId, ps @ cs, rs, ws, direct)))))))"

text \<open>
  What one task adds to the graph, computed on a given store: nothing for a task that is
  not materialized, else its node and the \<open>setEdge\<close> calls; and the nodes and edges a
  run of \<open>createRuntimeGraph\<close> is observed by.
\<close>

definition taskCalls ::
  "status_map \<Rightarrow> named_value list \<Rightarrow> string list \<Rightarrow> string list \<Rightarrow> workflow_status
     \<Rightarrow> pipeline_task \<Rightarrow> js_error + (string \<times> edge list) option" where
  "taskCalls sm pipelineParams conditionTasks skipped st t =
     (if \<not> materialized sm st conditionTasks t then Inr None
      else andThen (taskEdges sm pipelineParams conditionTasks skipped t st)
             (\<lambda>(taskId, status, direct, edges, st'). Inr (Some (taskId, direct @ edges))))"

definition callEdges :: "js_error + (string \<times> edge list) option \<Rightarrow> (string \<times> string) set" where
  "callEdges c = (case c of Inr (Some (taskId, es)) \<Rightarrow> edgeOf ` set es | _ \<Rightarrow> {})"

definition callNodes :: "js_error + (string \<times> edge list) option \<Rightarrow> string set" where
  "callNodes c =
     (case c of
        Inr (Some (taskId, es)) \<Rightarrow>
          insert taskId (fst ` edgeOf ` set es \<union> snd ` edgeOf ` set es)
      | _ \<Rightarrow> {})"

definition graphView ::
  "js_error + graph \<times> workflow \<Rightarrow> (string set \<times> (string \<times> string) set) option" where
  "graphView r = (case r of Inl e \<Rightarrow> None | Inr (g, d) \<Rightarrow> Some (nodeIds g, edgeSet g))"

section \<open>Properties of the string primitives\<close>

lemma js_split_not_Nil: "js_split sep s \<noteq> []"
  by (induction s) (auto split: list.splits)


lemma js_nth_last: "xs \<noteq> [] \<Longrightarrow> js_nth xs (int (length xs) - 1) = Some (last xs)"
  by (simp add: js_nth_def last_conv_nth nat_diff_distrib')


lemma substring_butlast: "substring l 0 (int (length l) - 1) = butlast l"
  by (cases "l = []")
     (simp_all add: substring_def Let_def min_def max_def butlast_conv_take nat_diff_distrib')


lemma decodeParam_returns: "\<exists>r. decodeParam s = Inr r"
  by (simp add: decodeParam_def Let_def js_nth_last js_split_not_Nil)

section \<open>Claims about decodeParam\<close>

text \<open>
  C4. A string that has neither the pipeline-parameter shape nor the dotted
  upstream-result shape decodes to the empty reference: both \<open>task\<close> and \<open>param\<close> are
  absent. And \<open>decodeParam\<close> raises on no string: the only dereference that could fail,
  \<open>paramSplit[paramSplit.length - 1].substring\<close>, always finds a last segment.
\<close>

theorem decodeParam_no_match:
  "(\<not> pipelineParamShape s \<and> \<not> taskResultShape s \<longrightarrow>
      decodeParam s = Inr \<lparr>task = None, param = None\<rparr>)
   \<and> (\<forall>t. \<exists>r. decodeParam t = Inr r)"
  by (auto simp add: decodeParam_def Let_def js_nth_last js_split_not_Nil
        pipelineParamShape_def taskResultShape_def)

theorem decodeParam_no_match_witness:
  "\<not> pipelineParamShape ''plain'' \<and> \<not> taskResultShape ''plain'' \<and>
   decodeParam ''plain'' = Inr \<lparr>task = None, param = None\<rparr>"
proof -
  have a: "\<not> pipelineParamShape ''plain''"
    by (simp add: pipelineParamShape_def substring_def substring_from_def Let_def)
  have b: "\<not> taskResultShape ''plain''"
    by (simp add: taskResultShape_def indexOf_def startsWith_def)
  from a b decodeParam_no_match[of "''plain''"] show ?thesis by blast
qed


text \<open>
  C6, as the code has it. For a string of the dotted upstream-result shape (it holds
  \<open>$(\<close> and \<open>)\<close> and is not of the pipeline-parameter shape), \<open>task\<close> is the second
  dot-separated segment (absent when the string has no dot) and \<open>param\<close> is the last
  segment without its final character, whatever that character is. When the last
  segment is a delimiter-free word followed by the closing \<open>)\<close>, this is the segment
  with its delimiter characters stripped.
\<close>

theorem decodeParam_task_result:
  "taskResultShape s \<longrightarrow>
     decodeParam s = Inr \<lparr>task = js_nth (js_split CHR ''.'' s) 1,
                          param = Some (butlast (last (js_split CHR ''.'' s)))\<rparr>
     \<and> (\<forall>w. last (js_split CHR ''.'' s) = w @ '')'' \<and> spec_strip_delimiters w = w \<longrightarrow>
            butlast (last (js_split CHR ''.'' s)) =
              spec_strip_delimiters (last (js_split CHR ''.'' s)))"
  by (auto simp add: decodeParam_def Let_def js_nth_last js_split_not_Nil substring_butlast
        pipelineParamShape_def taskResultShape_def spec_strip_delimiters_def)

theorem decodeParam_task_result_witness:
  "taskResultShape ''$(tasks.A.results.out)'' \<and>
   decodeParam ''$(tasks.A.results.out)'' = Inr \<lparr>task = Some ''A'', param = Some ''out''\<rparr>"
proof -
  have a: "taskResultShape ''$(tasks.A.results.out)''"
    by (simp add: taskResultShape_def pipelineParamShape_def substring_def
          substring_from_def Let_def indexOf_def startsWith_def)
  have b: "js_nth (js_split CHR ''.'' ''$(tasks.A.results.out)'') 1 = Some ''A''"
    by (simp add: js_nth_def)
  have c: "butlast (last (js_split CHR ''.'' ''$(tasks.A.results.out)'')) = ''out''"
    by simp
  from a decodeParam_task_result[of "''$(tasks.A.results.out)''"] show ?thesis
    unfolding b c by blast
qed

text \<open>
  C6, as the claim states it, fails when the closing \<open>)\<close> is not the last character:
  \<open>$(tasks.A.results.out)/x\<close> has the upstream-result shape, its last segment with
  the delimiters stripped is \<open>out/x\<close>, and the code returns \<open>out)/\<close>.
\<close>

theorem decodeParam_task_result_counterexample:
  "taskResultShape ''$(tasks.A.results.out)/x'' \<and>
   decodeParam ''$(tasks.A.results.out)/x'' =
     Inr \<lparr>task = Some ''A'', param = Some ''out)/''\<rparr> \<and>
   spec_strip_delimiters (last (js_split CHR ''.'' ''$(tasks.A.results.out)/x'')) = ''out/x''"
  by (simp add: taskResultShape_def pipelineParamShape_def decodeParam_def substring_def
        substring_from_def Let_def indexOf_def startsWith_def js_nth_def
        spec_strip_delimiters_def)

section \<open>Claims about parseStoragePath\<close>

text \<open>
  C7. A string that begins with one of the six prefixes parses to the storage path of
  the corresponding service, with the first segment after the prefix as bucket and the
  remaining segments joined by \<open>/\<close> as key; \<open>gs://bucket/a/b\<close> parses to
  \<open>{source: gcs, bucket: "bucket", key: "a/b"}\<close>; a string that begins with none of the
  six raises the unsupported-storage-path error, as \<open>ftp://x\<close> does.
\<close>

theorem parseStoragePath_prefixes:
  "parseStoragePath (''gs://'' @ r) =
     Inr \<lparr>source = GCS, bucket = hd (js_split CHR ''/'' r),
          key = js_join ''/'' (tl (js_split CHR ''/'' r))\<rparr>
   \<and> parseStoragePath (''minio://'' @ r) =
     Inr \<lparr>source = MINIO, bucket = hd (js_split CHR ''/'' r),
          key = js_join ''/'' (tl (js_split CHR ''/'' r))\<rparr>
   \<and> parseStoragePath (''s3://'' @ r) =
     Inr \<lparr>source = S3, bucket = hd (js_split CHR ''/'' r),
          key = js_join ''/'' (tl (js_split CHR ''/'' r))\<rparr>
   \<and> parseStoragePath (''http://'' @ r) =
     Inr \<lparr>source = HTTP, bucket = hd (js_split CHR ''/'' r),
          key = js_join ''/'' (tl (js_split CHR ''/'' r))\<rparr>
   \<and> parseStoragePath (''https://'' @ r) =
     Inr \<lparr>source = HTTPS, bucket = hd (js_split CHR ''/'' r),
          key = js_join ''/'' (tl (js_split CHR ''/'' r))\<rparr>
   \<and> parseStoragePath (''volume://'' @ r) =
     Inr \<lparr>source = VOLUME, bucket = hd (js_split CHR ''/'' r),
          key = js_join ''/'' (tl (js_split CHR ''/'' r))\<rparr>
   \<and> parseStoragePath ''gs://bucket/a/b'' =
     Inr \<lparr>source = GCS, bucket = ''bucket'', key = ''a/b''\<rparr>
   \<and> (\<not> startsWith s ''gs://'' \<and> \<not> startsWith s ''minio://'' \<and> \<not> startsWith s ''s3://'' \<and>
      \<not> startsWith s ''http://'' \<and> \<not> startsWith s ''https://'' \<and> \<not> startsWith s ''volume://''
      \<longrightarrow> parseStoragePath s = Inl (Error (''Unsupported storage path: '' @ s)))"
  by (simp add: parseStoragePath_def storagePathOf_def startsWith_def Let_def)

theorem parseStoragePath_prefixes_witness:
  "\<not> startsWith ''ftp://x'' ''gs://'' \<and> \<not> startsWith ''ftp://x'' ''minio://'' \<and>
   \<not> startsWith ''ftp://x'' ''s3://'' \<and> \<not> startsWith ''ftp://x'' ''http://'' \<and>
   \<not> startsWith ''ftp://x'' ''https://'' \<and> \<not> startsWith ''ftp://x'' ''volume://'' \<and>
   parseStoragePath ''ftp://x'' = Inl (Error ''Unsupported storage path: ftp://x'') \<and>
   parseStoragePath ''s3://b/k/x.csv'' = Inr \<lparr>source = S3, bucket = ''b'', key = ''k/x.csv''\<rparr>"
  using parseStoragePath_prefixes[of "''b/k/x.csv''" "''ftp://x''"]
  by (simp add: startsWith_def)

end
